theory Spec2Isabelle
  imports Complex_Main "HOL-Library.Sublist"
begin

section \<open>Values of the JavaScript runtime\<close>

text \<open>
  The numbers \<open>JSON.parse\<close> can produce: the finite doubles (by their rational value),
  negative zero and the two infinities (an overflowing literal). \<open>NaN\<close> is no JSON.
\<close>

datatype jsnum = Num rat | NegZero | PosInfinity | NegInfinity

text \<open>
  What \<open>JSON.parse\<close> returns. An object is the list of its own properties; a property is
  read with \<open>map_of\<close>. A value that may be \<open>undefined\<close> is a \<open>json option\<close>, with
  \<open>None\<close> for \<open>undefined\<close>; a property that an object literal leaves out and a property
  set to \<open>undefined\<close> are both \<open>None\<close>. Strings are lists of bytes (UTF-8).
\<close>

datatype json =
    JNull
  | JBool bool
  | JNum jsnum
  | JStr string
  | JArr "json list"
  | JObj "(string \<times> json) list"

text \<open>
  A thrown value, by what the handlers of the two services read of it: \<open>err.message\<close>
  and \<open>err?.response?.text?.()\<close>. The latter is a call into the thrown object: it
  yields \<open>undefined\<close> when there is no \<open>response.text\<close>, or the text, or it throws.
  \<open>name\<close> is the error's class.
\<close>

datatype js_error = JsError (name: string) (message: string) (response_text: response_probe)
  and response_probe = NoResponse | ResponseText string | ResponseThrows js_error

abbreviation Error :: "string \<Rightarrow> js_error" where
  "Error m \<equiv> JsError ''Error'' m NoResponse"

abbreviation SyntaxError :: "string \<Rightarrow> js_error" where
  "SyntaxError m \<equiv> JsError ''SyntaxError'' m NoResponse"

abbreviation TypeError :: "string \<Rightarrow> js_error" where
  "TypeError m \<equiv> JsError ''TypeError'' m NoResponse"

abbreviation ReferenceError :: "string \<Rightarrow> js_error" where
  "ReferenceError m \<equiv> JsError ''ReferenceError'' m NoResponse"

text \<open>\<open>err?.response?.text?.()\<close>: the value logged, or the error the call throws.\<close>

fun raw_output :: "js_error \<Rightarrow> js_error + string option" where
  "raw_output (JsError n m NoResponse) = Inr None"
| "raw_output (JsError n m (ResponseText s)) = Inr (Some s)"
| "raw_output (JsError n m (ResponseThrows e)) = Inl e"

section \<open>The completion service and the rest of the environment\<close>

text \<open>
  The argument of \<open>getGenerativeModel\<close> (its \<open>generationConfig\<close> flattened). The
  temperature is the decimal the source writes.
\<close>

record model_params =
  model :: string
  temperature :: rat
  responseMimeType :: string

text \<open>
  The argument of \<open>generateContent\<close>: one content of one part, and a
  \<open>generationConfig\<close> that holds the response schema only.
\<close>

record request =
  role :: string
  text_part :: string
  responseSchema :: json

record call =
  on_model :: model_params
  sent :: request

text \<open>
  What the code takes from outside itself.
  \<^item> \<open>generateContent m r\<close> stands for lines 113-121 (and 241-249): the call on the model
    handle \<open>m\<close>, \<open>result.response\<close> and \<open>response.text()\<close>. \<open>Inl e\<close>: one of them
    throws \<open>e\<close>; \<open>Inr t\<close>: the text, \<open>None\<close> when absent.
  \<^item> \<open>JSON_parse t\<close>: \<open>Inl m\<close> when \<open>JSON.parse\<close> throws a SyntaxError of message \<open>m\<close>.
  \<^item> \<open>null_read_message p\<close>: the message of the TypeError that reading property \<open>p\<close>
    of \<open>null\<close> or \<open>undefined\<close> throws (it depends on the engine).
  \<^item> \<open>buildRoadmapPrompt\<close>: imported from \<open>utils/index\<close>, which is not among the
    sources; it is taken as a total function to strings.
\<close>

record env =
  generateContent :: "model_params \<Rightarrow> request \<Rightarrow> js_error + string option"
  JSON_parse :: "string \<Rightarrow> string + json"
  null_read_message :: "string \<Rightarrow> string"
  buildRoadmapPrompt :: "json option \<Rightarrow> json \<Rightarrow> json option \<Rightarrow> string"

text \<open>
  What a run does besides returning: the calls to the completion service, in order, and
  the lines written with \<open>console.error\<close> (label and value, \<open>None\<close> for \<open>undefined\<close>).
\<close>

record 'a outcome =
  calls :: "call list"
  console :: "(string \<times> string option) list"
  result :: "js_error + 'a"

text \<open>
  A call to the completion service: what is sent, on which handle, and what comes back.
  The calls of a run are recorded here and nowhere else.
\<close>

definition invoke ::
  "env \<Rightarrow> model_params \<Rightarrow> request \<Rightarrow> call \<times> (js_error + string option)" where
  "invoke env m r = (\<lparr>on_model = m, sent = r\<rparr>, generateContent env m r)"

section \<open>Operators\<close>

text \<open>
  \<open>v.p\<close> for the property names the two services read (\<open>goal\<close>, \<open>known\<close>,
  \<open>roadmap\<close>, ...): none of them is a property of a string, number, boolean or array, so
  only an object can have one, and \<open>null\<close> throws.
\<close>

fun own_prop :: "json \<Rightarrow> string \<Rightarrow> json option" where
  "own_prop (JObj kvs) p = map_of kvs p"
| "own_prop v p = None"

definition read_prop :: "env \<Rightarrow> json \<Rightarrow> string \<Rightarrow> js_error + json option" where
  "read_prop env v p =
     (if v = JNull then Inl (TypeError (null_read_message env p)) else Inr (own_prop v p))"

text \<open>\<open>x ?? undefined\<close>\<close>

fun nullish_undefined :: "json option \<Rightarrow> json option" where
  "nullish_undefined None = None"
| "nullish_undefined (Some JNull) = None"
| "nullish_undefined (Some v) = Some v"

fun falsy :: "json \<Rightarrow> bool" where
  "falsy JNull = True"
| "falsy (JBool b) = (\<not> b)"
| "falsy (JNum n) = (n = Num 0 \<or> n = NegZero)"
| "falsy (JStr s) = (s = [])"
| "falsy (JArr xs) = False"
| "falsy (JObj kvs) = False"

text \<open>\<open>x || []\<close>\<close>

fun or_empty_array :: "json option \<Rightarrow> json" where
  "or_empty_array None = JArr []"
| "or_empty_array (Some v) = (if falsy v then JArr [] else v)"

text \<open>
  \<open>String.prototype.trim\<close> on the ASCII white space. Both templates begin and end with
  a line feed around ASCII text, so no other white space is ever at an end.
\<close>

definition ws :: "char \<Rightarrow> bool" where
  "ws c = (c \<in> set [CHR 0x09, CHR 0x0A, CHR 0x0B, CHR 0x0C, CHR 0x0D, CHR 0x20])"

definition trim :: "string \<Rightarrow> string" where
  "trim s = rev (dropWhile ws (rev (dropWhile ws s)))"

text \<open>
  \<open>text.match(/\[[\s\S]*\]/)\<close>: the match starts at the first \<open>[\<close> and, the star being
  greedy over every character, ends at the last \<open>]\<close> after it; without both, \<open>null\<close>.
\<close>

definition regex_match :: "string \<Rightarrow> string option" where
  "regex_match t =
     (case dropWhile (\<lambda>c. c \<noteq> CHR ''['') t of
        [] \<Rightarrow> None
      | b # rest \<Rightarrow>
          (if CHR '']'' \<in> set rest
           then Some (b # rev (dropWhile (\<lambda>c. c \<noteq> CHR '']'') (rev rest)))
           else None))"

section \<open>GoalPreprocessorService\<close>

text \<open>
  The typed interface \<open>PreprocessedGoal\<close> (lines 158-165) is the record
  \<open>GoalDescriptor\<close> further down. What \<open>preprocess\<close> builds at run time is an object of
  whatever values the decoded text holds, as nothing checks them: that is this record.
\<close>

record PreprocessedGoal =
  goal :: "json option"
  known :: json
  experienceLevel :: "json option"
  formatPreference :: "json option"
  timeframe :: "json option"
  specificFocus :: "json option"

text \<open>The model handle of the constructor, lines 175-182.\<close>

definition goal_model :: model_params where
  "goal_model =
     \<lparr>model = ''gemini-1.5-flash'', temperature = 0.2,
      responseMimeType = ''application/json''\<rparr>"

text \<open>\<open>responseSchema\<close>, lines 187-210.\<close>

definition goal_schema :: json where
  "goal_schema =
     JObj [
       (''type'', JStr ''object''),
       (''properties'', JObj [
          (''goal'', JObj [(''type'', JStr ''string'')]),
          (''known'', JObj [
             (''type'', JStr ''array''),
             (''items'', JObj [(''type'', JStr ''string'')])]),
          (''experienceLevel'', JObj [
             (''type'', JArr [JStr ''string'', JStr ''null'']),
             (''enum'', JArr [JStr ''beginner'', JStr ''intermediate'', JStr ''advanced'', JNull])]),
          (''formatPreference'', JObj [
             (''type'', JArr [JStr ''string'', JStr ''null'']),
             (''enum'', JArr [JStr ''video'', JStr ''article'', JStr ''project'', JStr ''mixed'',
                JNull])]),
          (''timeframe'', JObj [(''type'', JArr [JStr ''string'', JStr ''null''])]),
          (''specificFocus'', JObj [
             (''type'', JArr [JStr ''array'', JStr ''null'']),
             (''items'', JObj [(''type'', JStr ''string'')])])]),
       (''required'', JArr [JStr ''goal'', JStr ''known''])]"

text \<open>
  The template of lines 212-238, cut where \<open>${message}\<close> stands: the text before it and
  the text after it, without the line feeds at the two ends that \<open>trim\<close> removes.
\<close>

definition goal_prompt_head :: string where
  \<open>goal_prompt_head = concat [
     ''You are an expert assistant that extracts detailed learning goals from user input.\<newline>'',
     ''\<newline>'',
     ''From the user message below, extract and infer the following in valid JSON:\<newline>'',
     ''\<newline>'',
     ''{\<newline>'',
     ''  "goal": "Clear, specific, actionable statement of what the user wants to learn or achieve",\<newline>'',
     ''  "known": ["List of skills, tools, languages, or concepts they already know or have experience with"],\<newline>'',
     ''  "experienceLevel": "beginner" | "intermediate" | "advanced" (infer from clues; null if unclear),\<newline>'',
     ''  "formatPreference": "video" | "article" | "project" | "mixed" (default to "mixed" unless explicitly stated),\<newline>'',
     ''  "timeframe": "Any mentioned duration (e.g., 'in 3 months', 'over 6 weeks', 'quick overview') or null",\<newline>'',
     ''  "specificFocus": ["Specific topics, areas, tools, or constraints they want to emphasize or avoid"] or null\<newline>'',
     ''}\<newline>'',
     ''\<newline>'',
     ''GUIDELINES:\<newline>'',
     ''- Make the goal concise but specific and actionable\<newline>'',
     ''- Infer experience level from mentions of prior knowledge, tools used, or complexity of request\<newline>'',
     ''- Only set formatPreference if they clearly prefer one style\<newline>'',
     ''- Include timeframe only if mentioned or strongly implied\<newline>'',
     ''- Capture any explicit focuses, constraints, or "avoid X" requests in specificFocus\<newline>'',
     ''- If uncertain, make intelligent defaults (e.g., mixed format, null timeframe)\<newline>'',
     ''\<newline>'',
     ''User message:\<newline>'',
     ''"""'']\<close>

definition goal_prompt_tail :: string where
  \<open>goal_prompt_tail = concat [
     ''"""\<newline>'',
     ''\<newline>'',
     ''Respond with valid JSON only, matching the schema exactly.'']\<close>

definition goal_prompt :: "string \<Rightarrow> string" where
  "goal_prompt msg =
     trim (''\<newline>'' @ goal_prompt_head @ msg @ goal_prompt_tail @ ''\<newline>'')"

definition goal_request :: "string \<Rightarrow> request" where
  "goal_request msg =
     \<lparr>role = ''user'', text_part = goal_prompt msg, responseSchema = goal_schema\<rparr>"

text \<open>
  The body of the \<open>try\<close> block, lines 241-265: the call it makes, and what it returns
  or (\<open>Inl\<close>) throws.
\<close>

definition preprocess_try ::
  "env \<Rightarrow> string \<Rightarrow> call list \<times> (js_error + PreprocessedGoal)" where
  "preprocess_try env msg =
     (case invoke env goal_model (goal_request msg) of
        (c, reply) \<Rightarrow>
          ([c],
           case reply of
             Inl err \<Rightarrow> Inl err
           | Inr None \<Rightarrow> Inl (Error ''Empty response from Gemini'')
           | Inr (Some text) \<Rightarrow>
               if text = [] then Inl (Error ''Empty response from Gemini'')
               else
                 (case JSON_parse env text of
                    Inl m \<Rightarrow> Inl (SyntaxError m)
                  | Inr parsed \<Rightarrow>
                      (case read_prop env parsed ''goal'' of Inl e \<Rightarrow> Inl e | Inr g \<Rightarrow>
                       case read_prop env parsed ''known'' of Inl e \<Rightarrow> Inl e | Inr k \<Rightarrow>
                       case read_prop env parsed ''experienceLevel'' of Inl e \<Rightarrow> Inl e
                       | Inr x \<Rightarrow>
                       case read_prop env parsed ''formatPreference'' of Inl e \<Rightarrow> Inl e
                       | Inr f \<Rightarrow>
                       case read_prop env parsed ''timeframe'' of Inl e \<Rightarrow> Inl e | Inr t \<Rightarrow>
                       case read_prop env parsed ''specificFocus'' of Inl e \<Rightarrow> Inl e
                       | Inr s \<Rightarrow>
                         Inr \<lparr>goal = g,
                              known = or_empty_array k,
                              experienceLevel = nullish_undefined x,
                              formatPreference = nullish_undefined f,
                              timeframe = nullish_undefined t,
                              specificFocus = nullish_undefined s\<rparr>))))"

text \<open>
  \<open>preprocess\<close>, lines 185-273, with the handler of lines 266-272: it logs the message,
  logs \<open>err?.response?.text?.()\<close> (and is left by what that call throws, if it throws),
  then throws the wrapped error. There is no other way out of the handler.
\<close>

definition preprocess :: "env \<Rightarrow> string \<Rightarrow> PreprocessedGoal outcome" where
  "preprocess env msg =
     (case preprocess_try env msg of
        (cs, Inr g) \<Rightarrow> \<lparr>calls = cs, console = [], result = Inr g\<rparr>
      | (cs, Inl err) \<Rightarrow>
          (let line1 = (''Gemini preprocessing failed:'', Some (message err)) in
           case raw_output err of
             Inl thrown \<Rightarrow> \<lparr>calls = cs, console = [line1], result = Inl thrown\<rparr>
           | Inr raw \<Rightarrow>
               \<lparr>calls = cs,
                console = [line1, (''Raw output (if any):'', raw)],
                result = Inl (Error (''Failed to preprocess goal with Gemini: '' @ message err))\<rparr>))"

section \<open>ChatService\<close>

record RoadmapResponse =
  roadmap :: "json option"
  shouldTriggerCalendar :: "json option"
  calendarIntentReason :: "json option"

text \<open>The model handle of the constructor, lines 21-29.\<close>

definition chat_model :: model_params where
  "chat_model =
     \<lparr>model = ''gemini-1.5-flash'', temperature = 0.7,
      responseMimeType = ''application/json''\<rparr>"

text \<open>\<open>responseSchema\<close>, lines 37-81.\<close>

definition resource_schema :: json where
  "resource_schema =
     JObj [
       (''type'', JStr ''object''),
       (''properties'', JObj [
          (''type'', JObj [(''type'', JStr ''string'')]),
          (''title'', JObj [(''type'', JStr ''string'')]),
          (''link'', JObj [(''type'', JStr ''string'')]),
          (''description'', JObj [(''type'', JStr ''string'')])]),
       (''required'', JArr [JStr ''type'', JStr ''title'', JStr ''link'', JStr ''description''])]"

definition node_schema :: json where
  "node_schema =
     JObj [
       (''type'', JStr ''object''),
       (''properties'', JObj [
          (''id'', JObj [(''type'', JStr ''string'')]),
          (''title'', JObj [(''type'', JStr ''string'')]),
          (''description'', JObj [(''type'', JStr ''string'')]),
          (''resources'', JObj [(''type'', JStr ''array''), (''items'', resource_schema)])]),
       (''required'', JArr [JStr ''id'', JStr ''title'', JStr ''description'', JStr ''resources''])]"

definition stage_schema :: json where
  "stage_schema =
     JObj [
       (''type'', JStr ''object''),
       (''properties'', JObj [
          (''id'', JObj [(''type'', JStr ''string'')]),
          (''title'', JObj [(''type'', JStr ''string'')]),
          (''description'', JObj [(''type'', JStr ''string'')]),
          (''nodes'', JObj [(''type'', JStr ''array''), (''items'', node_schema)])]),
       (''required'', JArr [JStr ''id'', JStr ''title'', JStr ''description'', JStr ''nodes''])]"

definition roadmap_schema :: json where
  "roadmap_schema =
     JObj [
       (''type'', JStr ''object''),
       (''properties'', JObj [
          (''roadmap'', JObj [(''type'', JStr ''array''), (''items'', stage_schema)]),
          (''triggerCalendar'', JObj [(''type'', JStr ''boolean'')]),
          (''calendarIntentReason'', JObj [(''type'', JArr [JStr ''string'', JStr ''null''])])]),
       (''required'', JArr [JStr ''roadmap'', JStr ''triggerCalendar''])]"

text \<open>
  The template of lines 83-110, cut where \<open>${userMessage}\<close> and \<open>${prompt}\<close> stand,
  without the line feeds at the two ends that \<open>trim\<close> removes.
\<close>

definition roadmap_prompt_head :: string where
  \<open>roadmap_prompt_head = concat [
     ''You are an expert roadmap builder and learning specialist.\<newline>'',
     ''\<newline>'',
     ''Your task is to generate a structured learning roadmap based on the goal below.\<newline>'',
     ''\<newline>'',
     ''Additionally, detect if the user wants calendar integration '',
     [CHR 0xE2, CHR 0x80, CHR 0x94],
     '' only set triggerCalendar to true if they explicitly mention scheduling, reminders, deadlines, calendar events, check-ins, etc.\<newline>'',
     ''\<newline>'',
     ''User's original message: "'']\<close>

definition roadmap_prompt_mid :: string where
  \<open>roadmap_prompt_mid = concat [
     ''"\<newline>'',
     ''\<newline>'',
     ''Roadmap goal: '']\<close>

definition roadmap_prompt_tail :: string where
  \<open>roadmap_prompt_tail = concat [
     ''\<newline>'',
     ''\<newline>'',
     ''Examples where triggerCalendar = true:\<newline>'',
     ''- "Make a 6-week plan with weekly reminders"\<newline>'',
     ''- "Add this to my calendar with deadlines"\<newline>'',
     ''\<newline>'',
     ''Examples where triggerCalendar = false:\<newline>'',
     ''- "Give me a roadmap to learn TypeScript"\<newline>'',
     ''- "How to master backend development"\<newline>'',
     ''\<newline>'',
     ''ROADMAP GUIDELINES:\<newline>'',
     ''- Each stage: meaningful title, 2'', [CHR 0xE2, CHR 0x80, CHR 0x93],
     ''3 sentence description explaining why it's important\<newline>'',
     ''- Each node: detailed 2'', [CHR 0xE2, CHR 0x80, CHR 0x93],
     ''3 sentence educational description\<newline>'',
     ''- Exactly 3 high-quality resources per node (video, article, project mix)\<newline>'',
     ''- Use reputable sources (MDN, official docs, FreeCodeCamp, Traversy Media, etc.)\<newline>'',
     ''- Realistic and valid-looking links\<newline>'',
     ''\<newline>'',
     ''Output must be valid JSON matching the schema.'']\<close>

definition fullPrompt :: "string \<Rightarrow> string \<Rightarrow> string" where
  "fullPrompt userMessage prompt =
     trim (''\<newline>'' @ roadmap_prompt_head @ userMessage @ roadmap_prompt_mid @ prompt
           @ roadmap_prompt_tail @ ''\<newline>'')"

definition roadmap_request :: "string \<Rightarrow> request" where
  "roadmap_request fp =
     \<lparr>role = ''user'', text_part = fp, responseSchema = roadmap_schema\<rparr>"

text \<open>
  The body of the \<open>try\<close> block, lines 113-133: the call it makes, and what it returns
  or (\<open>Inl\<close>) throws.
\<close>

definition generateRoadmap_try ::
  "env \<Rightarrow> string \<Rightarrow> call list \<times> (js_error + RoadmapResponse)" where
  "generateRoadmap_try env fp =
     (case invoke env chat_model (roadmap_request fp) of
        (c, reply) \<Rightarrow>
          ([c],
           case reply of
             Inl err \<Rightarrow> Inl err
           | Inr None \<Rightarrow> Inl (Error ''Empty response from Gemini'')
           | Inr (Some text) \<Rightarrow>
               if text = [] then Inl (Error ''Empty response from Gemini'')
               else
                 (case JSON_parse env text of
                    Inl m \<Rightarrow> Inl (SyntaxError m)
                  | Inr parsed \<Rightarrow>
                      (case read_prop env parsed ''roadmap'' of Inl e \<Rightarrow> Inl e | Inr r \<Rightarrow>
                       case read_prop env parsed ''triggerCalendar'' of Inl e \<Rightarrow> Inl e
                       | Inr t \<Rightarrow>
                       case read_prop env parsed ''calendarIntentReason'' of Inl e \<Rightarrow> Inl e
                       | Inr c \<Rightarrow>
                         Inr \<lparr>roadmap = r,
                              shouldTriggerCalendar = t,
                              calendarIntentReason = nullish_undefined c\<rparr>))))"

text \<open>
  The names bound where the handler of lines 134-153 runs, innermost first, with their
  values: the \<open>catch\<close> parameter, the parameter and the constants of \<open>generateRoadmap\<close>
  declared before the \<open>try\<close>, and the imports and the class of the module. The constants
  \<open>result\<close>, \<open>response\<close>, \<open>text\<close> and \<open>parsed\<close> belong to the block of the \<open>try\<close>
  and are not among them; the global object of the runtime has no \<open>text\<close> either.
\<close>

datatype binding = Value "json option" | Thrown js_error | Function

definition module_scope :: "(string \<times> binding) list" where
  "module_scope =
     [(''Injectable'', Function), (''GoogleGenerativeAI'', Function),
      (''buildRoadmapPrompt'', Function), (''GoalPreprocessorService'', Function),
      (''ChatService'', Function)]"

definition catch_scope ::
  "js_error \<Rightarrow> string \<Rightarrow> PreprocessedGoal \<Rightarrow> string \<Rightarrow> string \<Rightarrow> (string \<times> binding) list" where
  "catch_scope err userMessage g prompt fp =
     [(''err'', Thrown err),
      (''userMessage'', Value (Some (JStr userMessage))),
      (''goal'', Value (goal g)),
      (''known'', Value (Some (known g))),
      (''experienceLevel'', Value (experienceLevel g)),
      (''prompt'', Value (Some (JStr prompt))),
      (''responseSchema'', Value (Some roadmap_schema)),
      (''fullPrompt'', Value (Some (JStr fp)))]
     @ module_scope"

text \<open>
  The inner \<open>try\<close> block, lines 140-147, in a scope \<open>sc\<close>. \<open>Inl e\<close>: it throws \<open>e\<close>
  (which line 148 catches and drops); \<open>Inr None\<close>: no match, control falls through;
  \<open>Inr (Some r)\<close>: it returns \<open>r\<close>.
\<close>

definition fallback_block ::
  "env \<Rightarrow> (string \<times> binding) list \<Rightarrow> js_error + RoadmapResponse option" where
  "fallback_block env sc =
     (case map_of sc ''text'' of
        None \<Rightarrow> Inl (ReferenceError ''text is not defined'')
      | Some (Value (Some (JStr text))) \<Rightarrow>
          (case regex_match text of
             None \<Rightarrow> Inr None
           | Some fallbackMatch \<Rightarrow>
               (case JSON_parse env fallbackMatch of
                  Inl m \<Rightarrow> Inl (SyntaxError m)
                | Inr r \<Rightarrow>
                    Inr (Some \<lparr>roadmap = Some r,
                               shouldTriggerCalendar = Some (JBool False),
                               calendarIntentReason = None\<rparr>)))
      | Some (Value None) \<Rightarrow> Inl (TypeError (null_read_message env ''match''))
      | Some (Value (Some JNull)) \<Rightarrow> Inl (TypeError (null_read_message env ''match''))
      | Some _ \<Rightarrow> Inl (TypeError ''text.match is not a function''))"

text \<open>
  A run of \<open>generateRoadmap\<close> also records whether the inner \<open>try\<close> block was entered,
  and how it ended: \<open>fallback = None\<close> when control never reached line 139.
\<close>

record 'a handled = "'a outcome" +
  fallback :: "(js_error + RoadmapResponse option) option"

text \<open>\<open>generateRoadmap\<close>, lines 32-154.\<close>

definition generateRoadmap :: "env \<Rightarrow> string \<Rightarrow> RoadmapResponse handled" where
  "generateRoadmap env userMessage =
     (let p = preprocess env userMessage in
      case result p of
        Inl e \<Rightarrow> \<lparr>calls = calls p, console = console p, result = Inl e, fallback = None\<rparr>
      | Inr g \<Rightarrow>
          (let prompt = buildRoadmapPrompt env (goal g) (known g) (experienceLevel g);
               fp = fullPrompt userMessage prompt
           in
           case generateRoadmap_try env fp of
             (made, Inr r) \<Rightarrow>
               \<lparr>calls = calls p @ made, console = console p, result = Inr r, fallback = None\<rparr>
           | (made, Inl err) \<Rightarrow>
               (let cs = calls p @ made;
                    line1 = (''Gemini generation failed:'', Some (message err))
                in
                case raw_output err of
                  Inl thrown \<Rightarrow>
                    \<lparr>calls = cs, console = console p @ [line1], result = Inl thrown,
                     fallback = None\<rparr>
                | Inr raw \<Rightarrow>
                    (let out = console p @ [line1, (''Raw output (if any):'', raw)];
                         fb = fallback_block env (catch_scope err userMessage g prompt fp)
                     in
                     case fb of
                       Inr (Some r) \<Rightarrow>
                         \<lparr>calls = cs, console = out, result = Inr r, fallback = Some fb\<rparr>
                     | _ \<Rightarrow>
                         \<lparr>calls = cs, console = out,
                          result = Inl (Error (''Failed to generate or parse roadmap: ''
                                               @ message err)),
                          fallback = Some fb\<rparr>))))"

section \<open>The replies a run receives\<close>

definition goal_reply :: "env \<Rightarrow> string \<Rightarrow> js_error + string option" where
  "goal_reply env userMessage = generateContent env goal_model (goal_request userMessage)"

text \<open>\<open>fullPrompt\<close> of line 83 in a run that extracted the goal \<open>g\<close>.\<close>

definition stage_prompt :: "env \<Rightarrow> string \<Rightarrow> PreprocessedGoal \<Rightarrow> string" where
  "stage_prompt env userMessage g =
     fullPrompt userMessage (buildRoadmapPrompt env (goal g) (known g) (experienceLevel g))"

definition roadmap_reply ::
  "env \<Rightarrow> string \<Rightarrow> PreprocessedGoal \<Rightarrow> js_error + string option" where
  "roadmap_reply env userMessage g =
     generateContent env chat_model (roadmap_request (stage_prompt env userMessage g))"

section \<open>The two stages as functions of the replies\<close>

text \<open>
  The pipeline in the words of its description: a stage sends one request, decodes the
  whole reply and builds its result from the decoded value; the orchestrator runs the
  goal stage on the message and then the roadmap stage on the goal and the message.
  \<open>None\<close> stands for a failed stage, whatever the error. These definitions are
  written apart from \<open>preprocess\<close> and \<open>generateRoadmap\<close>, to compare them with.
\<close>

fun returned :: "js_error + 'a \<Rightarrow> 'a option" where
  "returned (Inl e) = None"
| "returned (Inr r) = Some r"

definition decoded :: "env \<Rightarrow> js_error + string option \<Rightarrow> json option" where
  "decoded env reply =
     (case reply of
        Inr (Some t) \<Rightarrow>
          (if t = [] then None
           else case JSON_parse env t of
                  Inr j \<Rightarrow> (if j = JNull then None else Some j)
                | Inl em \<Rightarrow> None)
      | _ \<Rightarrow> None)"

definition goal_of :: "json \<Rightarrow> PreprocessedGoal" where
  "goal_of j =
     \<lparr>goal = own_prop j ''goal'',
      known = or_empty_array (own_prop j ''known''),
      experienceLevel = nullish_undefined (own_prop j ''experienceLevel''),
      formatPreference = nullish_undefined (own_prop j ''formatPreference''),
      timeframe = nullish_undefined (own_prop j ''timeframe''),
      specificFocus = nullish_undefined (own_prop j ''specificFocus'')\<rparr>"

definition response_of :: "json \<Rightarrow> RoadmapResponse" where
  "response_of j =
     \<lparr>roadmap = own_prop j ''roadmap'',
      shouldTriggerCalendar = own_prop j ''triggerCalendar'',
      calendarIntentReason = nullish_undefined (own_prop j ''calendarIntentReason'')\<rparr>"

definition goal_stage :: "env \<Rightarrow> string \<Rightarrow> PreprocessedGoal option" where
  "goal_stage env userMessage =
     map_option goal_of
       (decoded env
          (generateContent env goal_model
             \<lparr>role = ''user'',
              text_part = goal_prompt_head @ userMessage @ goal_prompt_tail,
              responseSchema = goal_schema\<rparr>))"

definition roadmap_stage :: "env \<Rightarrow> PreprocessedGoal \<Rightarrow> string \<Rightarrow> RoadmapResponse option" where
  "roadmap_stage env g userMessage =
     map_option response_of
       (decoded env
          (generateContent env chat_model
             \<lparr>role = ''user'',
              text_part = roadmap_prompt_head @ userMessage @ roadmap_prompt_mid
                @ buildRoadmapPrompt env (goal g) (known g) (experienceLevel g)
                @ roadmap_prompt_tail,
              responseSchema = roadmap_schema\<rparr>))"

definition pipeline :: "env \<Rightarrow> string \<Rightarrow> RoadmapResponse option" where
  "pipeline env userMessage =
     (case goal_stage env userMessage of
        None \<Rightarrow> None
      | Some g \<Rightarrow> roadmap_stage env g userMessage)"

section \<open>The typed goal descriptor and its forms on the wire\<close>

text \<open>The interface \<open>PreprocessedGoal\<close> of lines 158-165, as declared.\<close>

datatype ExperienceLevel = beginner | intermediate | advanced

datatype FormatPreference = video | article | project | mixed

record GoalDescriptor =
  d_goal :: string
  d_known :: "string list"
  d_experienceLevel :: "ExperienceLevel option"
  d_formatPreference :: "FormatPreference option"
  d_timeframe :: "string option"
  d_specificFocus :: "string list option"

fun level_json :: "ExperienceLevel \<Rightarrow> json" where
  "level_json beginner = JStr ''beginner''"
| "level_json intermediate = JStr ''intermediate''"
| "level_json advanced = JStr ''advanced''"

fun format_json :: "FormatPreference \<Rightarrow> json" where
  "format_json video = JStr ''video''"
| "format_json article = JStr ''article''"
| "format_json project = JStr ''project''"
| "format_json mixed = JStr ''mixed''"

definition strings_json :: "string list \<Rightarrow> json" where
  "strings_json xs = JArr (map JStr xs)"

text \<open>The descriptor as the object of run-time values it is.\<close>

definition to_runtime :: "GoalDescriptor \<Rightarrow> PreprocessedGoal" where
  "to_runtime d =
     \<lparr>goal = Some (JStr (d_goal d)),
      known = strings_json (d_known d),
      experienceLevel = map_option level_json (d_experienceLevel d),
      formatPreference = map_option format_json (d_formatPreference d),
      timeframe = map_option JStr (d_timeframe d),
      specificFocus = map_option strings_json (d_specificFocus d)\<rparr>"

text \<open>
  An optional field on the wire: a present value is written as it is, an absent one is
  left out or written \<open>null\<close>.
\<close>

fun optional_on_wire :: "json option \<Rightarrow> json option \<Rightarrow> bool" where
  "optional_on_wire w (Some v) = (w = Some v)"
| "optional_on_wire w None = (w = None \<or> w = Some JNull)"

text \<open>
  \<open>wire_form j d\<close>: the decoded object \<open>j\<close> is a form of \<open>d\<close> under the schema of lines
  187-210. Besides the optional fields, an empty \<open>known\<close> may be missing.
\<close>

definition wire_form :: "json \<Rightarrow> GoalDescriptor \<Rightarrow> bool" where
  "wire_form j d =
     (own_prop j ''goal'' = Some (JStr (d_goal d)) \<and>
      (own_prop j ''known'' = Some (strings_json (d_known d)) \<or>
       d_known d = [] \<and> own_prop j ''known'' = None) \<and>
      optional_on_wire (own_prop j ''experienceLevel'')
        (map_option level_json (d_experienceLevel d)) \<and>
      optional_on_wire (own_prop j ''formatPreference'')
        (map_option format_json (d_formatPreference d)) \<and>
      optional_on_wire (own_prop j ''timeframe'') (map_option JStr (d_timeframe d)) \<and>
      optional_on_wire (own_prop j ''specificFocus'')
        (map_option strings_json (d_specificFocus d)))"

section \<open>The resources of a roadmap\<close>

text \<open>
  The shape of a roadmap by the schema of lines 37-81: an array of stages, each with an
  array \<open>nodes\<close>, each node with an array \<open>resources\<close>.
\<close>

fun elements :: "json option \<Rightarrow> json list" where
  "elements (Some (JArr xs)) = xs"
| "elements v = []"

definition roadmap_nodes :: "json option \<Rightarrow> json list" where
  "roadmap_nodes r = concat (map (\<lambda>stage. elements (own_prop stage ''nodes'')) (elements r))"

fun resource_count :: "json \<Rightarrow> nat option" where
  "resource_count node =
     (case own_prop node ''resources'' of
        Some (JArr rs) \<Rightarrow> Some (length rs)
      | _ \<Rightarrow> None)"

definition resource_count_invariant :: "json option \<Rightarrow> bool" where
  "resource_count_invariant r = list_all (\<lambda>node. resource_count node = Some 3) (roadmap_nodes r)"

section \<open>A sample environment\<close>

text \<open>
  Texts a completion service can return, with what \<open>JSON.parse\<close> makes of each (the
  messages are those of V8 in Node 18). \<open>sample_JSON_parse\<close> is \<open>JSON.parse\<close> on these
  texts only: its last line stands for every other text, and no example reaches it.
\<close>

definition goal_text :: string where
  \<open>goal_text = ''{"goal":"Learn TypeScript","known":["JavaScript"],"experienceLevel":null}''\<close>

definition goal_json :: json where
  "goal_json =
     JObj [(''goal'', JStr ''Learn TypeScript''), (''known'', JArr [JStr ''JavaScript'']),
           (''experienceLevel'', JNull)]"

definition stages_text :: string where
  \<open>stages_text = ''[{"id":"s1","title":"Basics","description":"Start here","nodes":[{"id":"n1","title":"Types","description":"Learn the types","resources":[]}]}]''\<close>

definition stages_json :: json where
  "stages_json =
     JArr [JObj [(''id'', JStr ''s1''), (''title'', JStr ''Basics''),
                 (''description'', JStr ''Start here''),
                 (''nodes'', JArr [JObj [(''id'', JStr ''n1''), (''title'', JStr ''Types''),
                                        (''description'', JStr ''Learn the types''),
                                        (''resources'', JArr [])]])]]"

definition roadmap_text :: string where
  \<open>roadmap_text = ''{"roadmap":'' @ stages_text @ '',"triggerCalendar":false,"calendarIntentReason":null}''\<close>

definition roadmap_json :: json where
  "roadmap_json =
     JObj [(''roadmap'', stages_json), (''triggerCalendar'', JBool False),
           (''calendarIntentReason'', JNull)]"

definition prose_text :: string where
  \<open>prose_text = ''Here is your plan:\<newline>'' @ stages_text @ ''\<newline>Enjoy!''\<close>

definition sample_JSON_parse :: "string \<Rightarrow> string + json" where
  "sample_JSON_parse t =
     (if t = goal_text then Inr goal_json
      else if t = roadmap_text then Inr roadmap_json
      else if t = stages_text then Inr stages_json
      else if t = ''null'' then Inr JNull
      else if t = prose_text then Inl ''Unexpected token H in JSON at position 0''
      else if t = ''not json at all'' then Inl ''Unexpected token o in JSON at position 1''
      else Inl ''Unexpected end of JSON input'')"

text \<open>
  A stand-in for \<open>buildRoadmapPrompt\<close> of \<open>utils/index\<close>.
\<close>

fun sample_buildRoadmapPrompt :: "json option \<Rightarrow> json \<Rightarrow> json option \<Rightarrow> string" where
  "sample_buildRoadmapPrompt (Some (JStr g)) k x = ''Goal: '' @ g"
| "sample_buildRoadmapPrompt g k x = ''Goal: undefined''"

text \<open>
  The environment in which the completion service answers the goal-extraction request
  (the one on the handle of temperature 0.2) with \<open>a\<close> and the roadmap request with
  \<open>b\<close>; the messages of its TypeErrors are those of V8.
\<close>

definition sample_env :: "js_error + string option \<Rightarrow> js_error + string option \<Rightarrow> env" where
  "sample_env a b =
     \<lparr>generateContent = (\<lambda>m r. if temperature m = 0.2 then a else b),
      JSON_parse = sample_JSON_parse,
      null_read_message =
        (\<lambda>p. ''Cannot read properties of null (reading '' @ [CHR 0x27] @ p @ [CHR 0x27] @ '')''),
      buildRoadmapPrompt = sample_buildRoadmapPrompt\<rparr>"

text \<open>
  An error as \<open>response.text()\<close> of line 121 throws it when the candidate was blocked: it
  carries the response, so that \<open>err.response.text()\<close> of line 136 is the same call
  again and throws the same again (nothing reads the response of that second one).
\<close>

definition descriptor :: GoalDescriptor where
  "descriptor =
     \<lparr>d_goal = ''Learn TypeScript'', d_known = [''JavaScript''], d_experienceLevel = None,
      d_formatPreference = None, d_timeframe = None, d_specificFocus = None\<rparr>"

definition blocked :: js_error where
  "blocked =
     JsError ''GoogleGenerativeAIResponseError'' ''Candidate was blocked due to SAFETY''
       (ResponseThrows
          (JsError ''GoogleGenerativeAIResponseError'' ''Candidate was blocked due to SAFETY''
             NoResponse))"

section \<open>Lemmas: the prompts\<close>

lemma trim_strip:
  assumes "list_all ws a" "list_all ws b" "xs \<noteq> []" "\<not> ws (hd xs)" "\<not> ws (last xs)"
  shows "trim (a @ xs @ b) = xs"
proof -
  have 1: "dropWhile ws (a @ xs @ b) = xs @ b"
    using assms by (cases xs) (auto simp: dropWhile_append list_all_iff)
  have 2: "dropWhile ws (rev (xs @ b)) = rev xs"
    using assms by (cases xs rule: rev_cases) (auto simp: dropWhile_append list_all_iff)
  show ?thesis unfolding trim_def 1 2 by simp
qed

lemma last_Cons2: "last (x # y # ys) = last (y # ys)"
  by simp

lemma last_single: "last [x] = x"
  by simp

lemma roadmap_prompt_head_starts:
  "hd roadmap_prompt_head = CHR ''Y''" "roadmap_prompt_head \<noteq> []"
  by (simp_all only: roadmap_prompt_head_def concat.simps append_Cons list.sel list.distinct
      simp_thms)

lemma roadmap_prompt_tail_ends:
  "last roadmap_prompt_tail = CHR ''.''" "roadmap_prompt_tail \<noteq> []"
  by (simp_all only: roadmap_prompt_tail_def concat.simps last_append append_is_Nil_conv
      list.distinct simp_thms if_False if_True append_Nil2 last_Cons2 last_single)

lemma goal_prompt_head_starts:
  "hd goal_prompt_head = CHR ''Y''" "goal_prompt_head \<noteq> []"
  by (simp_all only: goal_prompt_head_def concat.simps append_Cons list.sel list.distinct
      simp_thms)

lemma goal_prompt_tail_ends:
  "last goal_prompt_tail = CHR ''.''" "goal_prompt_tail \<noteq> []"
  by (simp_all only: goal_prompt_tail_def concat.simps last_append append_is_Nil_conv
      list.distinct simp_thms if_False if_True append_Nil2 last_Cons2 last_single)

lemma ws_ends: "ws CHR ''\<newline>''" "\<not> ws CHR ''Y''" "\<not> ws CHR ''.''"
  by (simp_all add: ws_def)

text \<open>\<open>trim\<close> removes the two line feeds and nothing of the message.\<close>

lemma fullPrompt_eq:
  "fullPrompt m p = roadmap_prompt_head @ m @ roadmap_prompt_mid @ p @ roadmap_prompt_tail"
proof -
  let ?xs = "roadmap_prompt_head @ m @ roadmap_prompt_mid @ p @ roadmap_prompt_tail"
  have "trim (''\<newline>'' @ ?xs @ ''\<newline>'') = ?xs"
    by (rule trim_strip) (simp_all add: roadmap_prompt_head_starts roadmap_prompt_tail_ends ws_ends)
  then show ?thesis by (simp add: fullPrompt_def)
qed

lemma goal_prompt_eq: "goal_prompt m = goal_prompt_head @ m @ goal_prompt_tail"
proof -
  let ?xs = "goal_prompt_head @ m @ goal_prompt_tail"
  have "trim (''\<newline>'' @ ?xs @ ''\<newline>'') = ?xs"
    by (rule trim_strip) (simp_all add: goal_prompt_head_starts goal_prompt_tail_ends ws_ends)
  then show ?thesis by (simp add: goal_prompt_def)
qed

lemma sublist_concat: "x \<in> set xss \<Longrightarrow> sublist x (concat xss)"
proof (induction xss)
  case Nil
  then show ?case by simp
next
  case (Cons a xss)
  show ?case
  proof (cases "x = a")
    case True
    then show ?thesis by simp
  next
    case False
    with Cons have "sublist x (concat xss)" by simp
    moreover have "sublist (concat xss) (a @ concat xss)" by simp
    ultimately show ?thesis
      using sublist_order.order.trans by fastforce
  qed
qed

lemma tail_asks_for_three:
  \<open>sublist ''- Exactly 3 high-quality resources per node (video, article, project mix)\<newline>''
     roadmap_prompt_tail\<close>
  unfolding roadmap_prompt_tail_def by (rule sublist_concat) simp

lemma stage_prompt_asks_for_three:
  \<open>sublist ''- Exactly 3 high-quality resources per node (video, article, project mix)\<newline>''
     (stage_prompt env m g)\<close>
proof -
  have "sublist roadmap_prompt_tail (stage_prompt env m g)"
    unfolding stage_prompt_def fullPrompt_eq
    using sublist_append_leftI
      [of roadmap_prompt_tail
        "roadmap_prompt_head @ m @ roadmap_prompt_mid
         @ buildRoadmapPrompt env (goal g) (known g) (experienceLevel g)"]
    by simp
  with tail_asks_for_three show ?thesis
    by (rule sublist_order.order.trans)
qed

section \<open>Lemmas: the goal-extraction stage\<close>

lemma calls_preprocess_try:
  "fst (preprocess_try env m) = [\<lparr>on_model = goal_model, sent = goal_request m\<rparr>]"
  by (simp add: preprocess_try_def invoke_def)

lemma calls_preprocess:
  "calls (preprocess env m) = [\<lparr>on_model = goal_model, sent = goal_request m\<rparr>]"
  by (simp add: preprocess_def preprocess_try_def invoke_def Let_def split: sum.splits prod.splits)

lemma result_preprocess_Inr:
  "result (preprocess env m) = Inr g \<longleftrightarrow> snd (preprocess_try env m) = Inr g"
  by (simp add: preprocess_def preprocess_try_def invoke_def Let_def split: sum.splits prod.splits)

lemma console_preprocess_Inr:
  "result (preprocess env m) = Inr g \<Longrightarrow> console (preprocess env m) = []"
  by (simp add: preprocess_def preprocess_try_def invoke_def Let_def split: sum.splits prod.splits)

lemma preprocess_try_upstream:
  "goal_reply env m = Inl err \<Longrightarrow> snd (preprocess_try env m) = Inl err"
  by (simp add: preprocess_try_def invoke_def goal_reply_def)

lemma preprocess_wraps:
  "snd (preprocess_try env m) = Inl err \<Longrightarrow> raw_output err = Inr raw \<Longrightarrow>
   preprocess env m
   = \<lparr>calls = [\<lparr>on_model = goal_model, sent = goal_request m\<rparr>],
      console = [(''Gemini preprocessing failed:'', Some (message err)),
                 (''Raw output (if any):'', raw)],
      result = Inl (Error (''Failed to preprocess goal with Gemini: '' @ message err))\<rparr>"
  using calls_preprocess_try [of env m]
  by (cases "preprocess_try env m") (simp add: preprocess_def)

lemma preprocess_log_throws:
  "snd (preprocess_try env m) = Inl err \<Longrightarrow> raw_output err = Inl thrown \<Longrightarrow>
   preprocess env m
   = \<lparr>calls = [\<lparr>on_model = goal_model, sent = goal_request m\<rparr>],
      console = [(''Gemini preprocessing failed:'', Some (message err))],
      result = Inl thrown\<rparr>"
  using calls_preprocess_try [of env m]
  by (cases "preprocess_try env m") (simp add: preprocess_def)

lemma optional_on_wire_nullish:
  "optional_on_wire w v \<Longrightarrow> v \<noteq> Some JNull \<Longrightarrow> nullish_undefined w = v"
  by (cases v; cases w rule: nullish_undefined.cases) auto

text \<open>Two descriptors that are the same run-time object are the same descriptor.\<close>

lemma level_json_inj: "level_json a = level_json b \<Longrightarrow> a = b"
  by (cases a; cases b) simp_all

lemma format_json_inj: "format_json a = format_json b \<Longrightarrow> a = b"
  by (cases a; cases b) simp_all

lemma strings_json_inj: "strings_json xs = strings_json ys \<Longrightarrow> xs = ys"
  by (auto simp add: strings_json_def inj_def dest: map_injective)

lemma map_option_inj:
  assumes "\<And>a b. f a = f b \<Longrightarrow> a = b" and "map_option f x = map_option f y"
  shows "x = y"
  using assms by (cases x; cases y) auto

lemma to_runtime_inj:
  assumes "to_runtime d = to_runtime d'"
  shows "d = d'"
proof -
  from assms have e:
    "d_goal d = d_goal d'"
    "strings_json (d_known d) = strings_json (d_known d')"
    "map_option level_json (d_experienceLevel d) = map_option level_json (d_experienceLevel d')"
    "map_option format_json (d_formatPreference d) = map_option format_json (d_formatPreference d')"
    "map_option JStr (d_timeframe d) = map_option JStr (d_timeframe d')"
    "map_option strings_json (d_specificFocus d) = map_option strings_json (d_specificFocus d')"
    by (simp_all add: to_runtime_def)
  have "d_known d = d_known d'"
    using e(2) by (rule strings_json_inj)
  moreover have "d_experienceLevel d = d_experienceLevel d'"
    using level_json_inj e(3) by (rule map_option_inj)
  moreover have "d_formatPreference d = d_formatPreference d'"
    using format_json_inj e(4) by (rule map_option_inj)
  moreover have "d_timeframe d = d_timeframe d'"
    using e(5) by (rule map_option_inj [rotated]) simp
  moreover have "d_specificFocus d = d_specificFocus d'"
    using strings_json_inj e(6) by (rule map_option_inj)
  ultimately show ?thesis
    using e(1) by simp
qed

section \<open>Lemmas: the handler of generateRoadmap\<close>

text \<open>No name in scope of the handler is \<open>text\<close>, so the inner block throws at once.\<close>

lemma map_of_catch_scope: "map_of (catch_scope err m g p fp) ''text'' = None"
  by (simp add: catch_scope_def module_scope_def)

lemma fallback_block_catch_scope:
  "fallback_block env (catch_scope err m g p fp) = Inl (ReferenceError ''text is not defined'')"
  by (simp add: fallback_block_def map_of_catch_scope)

text \<open>Where \<open>text\<close> is bound to the raw text, the same block returns the recovered array.\<close>

lemma fallback_block_with_text:
  "regex_match t = Some a \<Longrightarrow> JSON_parse env a = Inr r \<Longrightarrow>
   fallback_block env ((''text'', Value (Some (JStr t))) # sc)
   = Inr (Some \<lparr>roadmap = Some r, shouldTriggerCalendar = Some (JBool False),
                calendarIntentReason = None\<rparr>)"
  by (simp add: fallback_block_def)

subsection \<open>The try block, by the reply of the completion service\<close>

lemma calls_generateRoadmap_try:
  "fst (generateRoadmap_try env fp) = [\<lparr>on_model = chat_model, sent = roadmap_request fp\<rparr>]"
  by (simp add: generateRoadmap_try_def invoke_def)

lemma try_upstream:
  "roadmap_reply env m g = Inl err \<Longrightarrow> snd (generateRoadmap_try env (stage_prompt env m g)) = Inl err"
  by (simp add: generateRoadmap_try_def invoke_def roadmap_reply_def)

lemma try_empty:
  "roadmap_reply env m g = Inr None \<or> roadmap_reply env m g = Inr (Some []) \<Longrightarrow>
   snd (generateRoadmap_try env (stage_prompt env m g)) = Inl (Error ''Empty response from Gemini'')"
  by (auto simp add: generateRoadmap_try_def invoke_def roadmap_reply_def)

lemma try_syntax:
  "roadmap_reply env m g = Inr (Some t) \<Longrightarrow> t \<noteq> [] \<Longrightarrow> JSON_parse env t = Inl em \<Longrightarrow>
   snd (generateRoadmap_try env (stage_prompt env m g)) = Inl (SyntaxError em)"
  by (simp add: generateRoadmap_try_def invoke_def roadmap_reply_def)

lemma try_null:
  "roadmap_reply env m g = Inr (Some t) \<Longrightarrow> t \<noteq> [] \<Longrightarrow> JSON_parse env t = Inr JNull \<Longrightarrow>
   snd (generateRoadmap_try env (stage_prompt env m g))
   = Inl (TypeError (null_read_message env ''roadmap''))"
  by (simp add: generateRoadmap_try_def invoke_def roadmap_reply_def read_prop_def)

lemma try_value:
  "roadmap_reply env m g = Inr (Some t) \<Longrightarrow> t \<noteq> [] \<Longrightarrow> JSON_parse env t = Inr parsed \<Longrightarrow>
   parsed \<noteq> JNull \<Longrightarrow>
   snd (generateRoadmap_try env (stage_prompt env m g))
   = Inr \<lparr>roadmap = own_prop parsed ''roadmap'',
          shouldTriggerCalendar = own_prop parsed ''triggerCalendar'',
          calendarIntentReason = nullish_undefined (own_prop parsed ''calendarIntentReason'')\<rparr>"
  by (simp add: generateRoadmap_try_def invoke_def roadmap_reply_def read_prop_def)

subsection \<open>The four ways through generateRoadmap\<close>

lemma run_goal_failed:
  "result (preprocess env m) = Inl e \<Longrightarrow>
   generateRoadmap env m
   = \<lparr>calls = [\<lparr>on_model = goal_model, sent = goal_request m\<rparr>],
      console = console (preprocess env m), result = Inl e, fallback = None\<rparr>"
  by (simp add: generateRoadmap_def Let_def calls_preprocess)

lemma run_strict:
  "result (preprocess env m) = Inr g \<Longrightarrow>
   snd (generateRoadmap_try env (stage_prompt env m g)) = Inr r \<Longrightarrow>
   generateRoadmap env m
   = \<lparr>calls = [\<lparr>on_model = goal_model, sent = goal_request m\<rparr>,
               \<lparr>on_model = chat_model, sent = roadmap_request (stage_prompt env m g)\<rparr>],
      console = [], result = Inr r, fallback = None\<rparr>"
  using calls_generateRoadmap_try [of env "stage_prompt env m g"]
  by (cases "generateRoadmap_try env (stage_prompt env m g)")
    (simp add: generateRoadmap_def Let_def calls_preprocess console_preprocess_Inr
      stage_prompt_def)

lemma run_handled:
  "result (preprocess env m) = Inr g \<Longrightarrow>
   snd (generateRoadmap_try env (stage_prompt env m g)) = Inl err \<Longrightarrow>
   raw_output err = Inr raw \<Longrightarrow>
   generateRoadmap env m
   = \<lparr>calls = [\<lparr>on_model = goal_model, sent = goal_request m\<rparr>,
               \<lparr>on_model = chat_model, sent = roadmap_request (stage_prompt env m g)\<rparr>],
      console = [(''Gemini generation failed:'', Some (message err)),
                 (''Raw output (if any):'', raw)],
      result = Inl (Error (''Failed to generate or parse roadmap: '' @ message err)),
      fallback = Some (Inl (ReferenceError ''text is not defined''))\<rparr>"
  using calls_generateRoadmap_try [of env "stage_prompt env m g"]
  by (cases "generateRoadmap_try env (stage_prompt env m g)")
    (simp add: generateRoadmap_def Let_def calls_preprocess console_preprocess_Inr
      stage_prompt_def fallback_block_catch_scope)

lemma run_log_throws:
  "result (preprocess env m) = Inr g \<Longrightarrow>
   snd (generateRoadmap_try env (stage_prompt env m g)) = Inl err \<Longrightarrow>
   raw_output err = Inl thrown \<Longrightarrow>
   generateRoadmap env m
   = \<lparr>calls = [\<lparr>on_model = goal_model, sent = goal_request m\<rparr>,
               \<lparr>on_model = chat_model, sent = roadmap_request (stage_prompt env m g)\<rparr>],
      console = [(''Gemini generation failed:'', Some (message err))],
      result = Inl thrown, fallback = None\<rparr>"
  using calls_generateRoadmap_try [of env "stage_prompt env m g"]
  by (cases "generateRoadmap_try env (stage_prompt env m g)")
    (simp add: generateRoadmap_def Let_def calls_preprocess console_preprocess_Inr
      stage_prompt_def)

lemma calls_generateRoadmap:
  "calls (generateRoadmap env m)
   = \<lparr>on_model = goal_model, sent = goal_request m\<rparr> #
     (case result (preprocess env m) of
        Inl e \<Rightarrow> []
      | Inr g \<Rightarrow> [\<lparr>on_model = chat_model, sent = roadmap_request (stage_prompt env m g)\<rparr>])"
proof (cases "result (preprocess env m)")
  case (Inl e)
  then show ?thesis by (simp add: run_goal_failed)
next
  case (Inr g)
  show ?thesis
  proof (cases "snd (generateRoadmap_try env (stage_prompt env m g))")
    case (Inr r)
    with \<open>result (preprocess env m) = Inr g\<close> show ?thesis by (simp add: run_strict)
  next
    case (Inl err)
    with Inr show ?thesis
      by (cases "raw_output err") (simp_all add: run_handled run_log_throws)
  qed
qed

text \<open>
  A value that \<open>generateRoadmap\<close> returns always comes from the \<open>try\<close> block: the
  inner block of the handler never returns one.
\<close>

lemma returned_value_is_strict:
  assumes "result (generateRoadmap env m) = Inr r"
  shows "fallback (generateRoadmap env m) = None \<and> console (generateRoadmap env m) = []"
proof (cases "result (preprocess env m)")
  case (Inl e)
  with assms show ?thesis by (simp add: run_goal_failed)
next
  case (Inr g)
  show ?thesis
  proof (cases "snd (generateRoadmap_try env (stage_prompt env m g))")
    case (Inr r')
    from run_strict [OF \<open>result (preprocess env m) = Inr g\<close> this] show ?thesis by simp
  next
    case (Inl err)
    show ?thesis
    proof (cases "raw_output err")
      case (Inl thrown)
      from run_log_throws [OF \<open>result (preprocess env m) = Inr g\<close>
          \<open>snd (generateRoadmap_try env (stage_prompt env m g)) = Inl err\<close> this] assms
      show ?thesis by simp
    next
      case (Inr raw)
      from run_handled [OF \<open>result (preprocess env m) = Inr g\<close>
          \<open>snd (generateRoadmap_try env (stage_prompt env m g)) = Inl err\<close> this] assms
      show ?thesis by simp
    qed
  qed
qed

text \<open>
  What the \<open>try\<close> block of either stage throws reaches the caller wrapped once, when
  the call \<open>err?.response?.text?.()\<close> of the log line returns; and it is never turned
  into a value.
\<close>

lemma goal_failure_wrapped:
  assumes "snd (preprocess_try env m) = Inl err" and "raw_output err = Inr raw"
  shows "result (generateRoadmap env m)
         = Inl (Error (''Failed to preprocess goal with Gemini: '' @ message err))"
proof -
  from preprocess_wraps [OF assms]
  have "result (preprocess env m)
        = Inl (Error (''Failed to preprocess goal with Gemini: '' @ message err))"
    by simp
  from run_goal_failed [OF this] show ?thesis by simp
qed

lemma roadmap_failure_wrapped:
  assumes "result (preprocess env m) = Inr g"
    and "snd (generateRoadmap_try env (stage_prompt env m g)) = Inl err"
    and "raw_output err = Inr raw"
  shows "result (generateRoadmap env m)
         = Inl (Error (''Failed to generate or parse roadmap: '' @ message err))"
  using run_handled [OF assms] by simp

lemma goal_failure_is_terminal:
  assumes "snd (preprocess_try env m) = Inl err"
  shows "\<exists>e. result (generateRoadmap env m) = Inl e"
    and "calls (generateRoadmap env m) = [\<lparr>on_model = goal_model, sent = goal_request m\<rparr>]"
proof -
  from assms obtain e where e: "result (preprocess env m) = Inl e"
    by (cases "result (preprocess env m)") (simp_all add: result_preprocess_Inr)
  from run_goal_failed [OF e]
  show "\<exists>e. result (generateRoadmap env m) = Inl e"
    and "calls (generateRoadmap env m) = [\<lparr>on_model = goal_model, sent = goal_request m\<rparr>]"
    by simp_all
qed

lemma roadmap_failure_propagates:
  assumes "result (preprocess env m) = Inr g"
    and "snd (generateRoadmap_try env (stage_prompt env m g)) = Inl err"
  shows "\<exists>e. result (generateRoadmap env m) = Inl e"
proof (cases "raw_output err")
  case (Inl thrown)
  from run_log_throws [OF assms this] show ?thesis by simp
next
  case (Inr raw)
  from run_handled [OF assms this] show ?thesis by simp
qed

text \<open>
  Each stage of the code is the stage of the description: what it returns is decoded from
  the reply to the request of that stage, and it fails exactly when that fails.
\<close>

lemma returned_preprocess: "returned (result (preprocess env m)) = goal_stage env m"
proof -
  have "returned (result (preprocess env m)) = returned (snd (preprocess_try env m))"
    by (cases "preprocess_try env m")
      (auto simp add: preprocess_def Let_def split: sum.splits)
  also have "\<dots> = map_option goal_of (decoded env (generateContent env goal_model (goal_request m)))"
    by (simp add: preprocess_try_def invoke_def decoded_def goal_of_def read_prop_def
        split: sum.splits option.splits)
  finally show ?thesis
    by (simp add: goal_stage_def goal_request_def goal_prompt_eq)
qed

lemma returned_try:
  "returned (snd (generateRoadmap_try env fp))
   = map_option response_of (decoded env (generateContent env chat_model (roadmap_request fp)))"
  by (simp add: generateRoadmap_try_def invoke_def decoded_def response_of_def read_prop_def
      split: sum.splits option.splits)

lemma returned_generateRoadmap:
  assumes "result (preprocess env m) = Inr g"
  shows "returned (result (generateRoadmap env m))
         = map_option response_of
             (decoded env (generateContent env chat_model (roadmap_request (stage_prompt env m g))))"
proof (cases "snd (generateRoadmap_try env (stage_prompt env m g))")
  case (Inr r)
  from run_strict [OF assms this] returned_try [of env "stage_prompt env m g"] Inr
  show ?thesis by simp
next
  case (Inl err)
  then have n: "map_option response_of
      (decoded env (generateContent env chat_model (roadmap_request (stage_prompt env m g))))
      = None"
    using returned_try [of env "stage_prompt env m g"] by simp
  show ?thesis
  proof (cases "raw_output err")
    case (Inl thrown)
    from run_log_throws [OF assms \<open>snd (generateRoadmap_try env (stage_prompt env m g)) = Inl err\<close>
        this] n
    show ?thesis by simp
  next
    case (Inr raw)
    from run_handled [OF assms \<open>snd (generateRoadmap_try env (stage_prompt env m g)) = Inl err\<close>
        this] n
    show ?thesis by simp
  qed
qed

lemma returned_generateRoadmap_stage:
  assumes "result (preprocess env m) = Inr g"
  shows "returned (result (generateRoadmap env m)) = roadmap_stage env g m"
  using returned_generateRoadmap [OF assms]
  by (simp add: roadmap_stage_def roadmap_request_def stage_prompt_def fullPrompt_eq)

text \<open>
  With \<open>text\<close> bound to an empty raw text the inner block finds no match and falls
  through: the failure of an empty response does not depend on the scope of \<open>text\<close>.
\<close>

lemma fallback_block_empty_text:
  "fallback_block env ((''text'', Value (Some (JStr []))) # sc) = Inr None"
  by (simp add: fallback_block_def regex_match_def)

section \<open>Lemmas: the sample environment\<close>

lemma sample_goal_reply: "goal_reply (sample_env a b) m = a"
  by (simp add: goal_reply_def sample_env_def goal_model_def)

lemma sample_roadmap_reply: "roadmap_reply (sample_env a b) m g = b"
  by (simp add: roadmap_reply_def sample_env_def chat_model_def)

lemma sample_parse:
  "JSON_parse (sample_env a b) goal_text = Inr goal_json"
  "JSON_parse (sample_env a b) roadmap_text = Inr roadmap_json"
  "JSON_parse (sample_env a b) stages_text = Inr stages_json"
  "JSON_parse (sample_env a b) ''null'' = Inr JNull"
  "JSON_parse (sample_env a b) prose_text = Inl ''Unexpected token H in JSON at position 0''"
  "JSON_parse (sample_env a b) ''not json at all''
   = Inl ''Unexpected token o in JSON at position 1''"
  by (simp_all add: sample_env_def sample_JSON_parse_def goal_text_def roadmap_text_def
      stages_text_def prose_text_def)

lemma sample_preprocess:
  "result (preprocess (sample_env (Inr (Some goal_text)) b) m) = Inr (to_runtime descriptor)"
  by (simp add: result_preprocess_Inr preprocess_try_def invoke_def sample_goal_reply [unfolded goal_reply_def]
      sample_parse read_prop_def goal_json_def to_runtime_def descriptor_def strings_json_def)
    (simp add: goal_text_def)

lemma sample_build: "buildRoadmapPrompt (sample_env a b) = sample_buildRoadmapPrompt"
  by (simp add: sample_env_def)

lemma sample_null_read:
  "null_read_message (sample_env a b) ''roadmap''
   = ''Cannot read properties of null (reading '' @ [CHR 0x27] @ ''roadmap'' @ [CHR 0x27] @ '')''"
  by (simp add: sample_env_def)

lemma sample_stage_prompt:
  "stage_prompt (sample_env a b) m (to_runtime descriptor) = fullPrompt m ''Goal: Learn TypeScript''"
  by (simp add: stage_prompt_def sample_build to_runtime_def descriptor_def)

lemma sample_raw_blocked:
  "raw_output blocked
   = Inl (JsError ''GoogleGenerativeAIResponseError'' ''Candidate was blocked due to SAFETY''
            NoResponse)"
  by (simp add: blocked_def)

lemma message_blocked: "message blocked = ''Candidate was blocked due to SAFETY''"
  by (simp add: blocked_def)

section \<open>The claims\<close>

subsection \<open>C1: recovery of an array wrapped in prose\<close>

text \<open>
  Claim C1 says that raw text which is no JSON but holds a bracketed array is recovered:
  \<open>generateRoadmap\<close> returns the decoded array with \<open>shouldTriggerCalendar = false\<close>
  and no reason. The code does not: at the text \<open>prose_text\<close>, which \<open>JSON.parse\<close>
  rejects and whose bracketed part \<open>stages_text\<close> it accepts, the inner block throws a
  ReferenceError for \<open>text\<close> and the run ends with the wrapped SyntaxError.
\<close>

theorem prose_wrapped_array_not_recovered:
  "JSON_parse (sample_env (Inr (Some goal_text)) (Inr (Some prose_text))) prose_text
   = Inl ''Unexpected token H in JSON at position 0''
   \<and> regex_match prose_text = Some stages_text
   \<and> JSON_parse (sample_env (Inr (Some goal_text)) (Inr (Some prose_text))) stages_text
     = Inr stages_json
   \<and> generateRoadmap (sample_env (Inr (Some goal_text)) (Inr (Some prose_text)))
       ''Teach me TypeScript''
     = \<lparr>calls =
          [\<lparr>on_model = goal_model, sent = goal_request ''Teach me TypeScript''\<rparr>,
           \<lparr>on_model = chat_model,
            sent = roadmap_request
              (fullPrompt ''Teach me TypeScript'' ''Goal: Learn TypeScript'')\<rparr>],
        console =
          [(''Gemini generation failed:'', Some ''Unexpected token H in JSON at position 0''),
           (''Raw output (if any):'', None)],
        result =
          Inl (Error ''Failed to generate or parse roadmap: Unexpected token H in JSON at position 0''),
        fallback = Some (Inl (ReferenceError ''text is not defined''))\<rparr>"
proof -
  let ?E = "sample_env (Inr (Some goal_text)) (Inr (Some prose_text))"
  let ?m = "''Teach me TypeScript''"
  have m: "regex_match prose_text = Some stages_text"
    by (simp add: regex_match_def prose_text_def stages_text_def)
  have p: "prose_text \<noteq> []"
    by (simp add: prose_text_def)
  have t: "snd (generateRoadmap_try ?E (stage_prompt ?E ?m (to_runtime descriptor)))
           = Inl (SyntaxError ''Unexpected token H in JSON at position 0'')"
    by (rule try_syntax [where t = prose_text]) (simp_all add: sample_roadmap_reply p sample_parse)
  from run_handled [OF sample_preprocess t, of None] m show ?thesis
    by (simp add: sample_parse sample_stage_prompt)
qed

subsection \<open>C2: the handler after a failure of the try block\<close>

text \<open>
  Claim C2 says that, whenever the \<open>try\<close> block of \<open>generateRoadmap\<close> throws, the
  fallback cannot return a value and the function ends with the wrapped error. The
  first half holds of every run (\<open>returned_value_is_strict\<close>), and so does the second
  when the log line of 136 returns (\<open>roadmap_failure_wrapped\<close>). When
  \<open>err.response.text()\<close> throws there, the function ends with that error, unwrapped,
  before line 139: here at the error \<open>blocked\<close> thrown in the roadmap stage.
\<close>

theorem rethrown_by_the_log_line:
  "generateRoadmap (sample_env (Inr (Some goal_text)) (Inl blocked)) ''Teach me TypeScript''
   = \<lparr>calls =
        [\<lparr>on_model = goal_model, sent = goal_request ''Teach me TypeScript''\<rparr>,
         \<lparr>on_model = chat_model,
          sent = roadmap_request
            (fullPrompt ''Teach me TypeScript'' ''Goal: Learn TypeScript'')\<rparr>],
      console = [(''Gemini generation failed:'', Some ''Candidate was blocked due to SAFETY'')],
      result =
        Inl (JsError ''GoogleGenerativeAIResponseError'' ''Candidate was blocked due to SAFETY''
               NoResponse),
      fallback = None\<rparr>"
proof -
  let ?E = "sample_env (Inr (Some goal_text)) (Inl blocked)"
  let ?m = "''Teach me TypeScript''"
  have t: "snd (generateRoadmap_try ?E (stage_prompt ?E ?m (to_runtime descriptor))) = Inl blocked"
    by (rule try_upstream) (simp add: sample_roadmap_reply)
  from run_log_throws [OF sample_preprocess t sample_raw_blocked] show ?thesis
    by (simp add: sample_stage_prompt message_blocked)
qed

subsection \<open>C3: an empty or absent response\<close>

text \<open>
  Claim C3 says that an empty or absent raw text fails as an empty response and that the
  fallback is never attempted. The failure is as claimed; but the error is thrown inside
  the \<open>try\<close> block, the one handler does not tell it from any other, and control
  enters the inner block of line 139. At the empty text:
\<close>

theorem empty_response_enters_fallback:
  "roadmap_reply (sample_env (Inr (Some goal_text)) (Inr (Some ''''))) ''Teach me TypeScript''
     (to_runtime descriptor) = Inr (Some '''')
   \<and> fallback (generateRoadmap (sample_env (Inr (Some goal_text)) (Inr (Some '''')))
        ''Teach me TypeScript'') \<noteq> None"
proof -
  let ?E = "sample_env (Inr (Some goal_text)) (Inr (Some ''''))"
  let ?m = "''Teach me TypeScript''"
  have t: "snd (generateRoadmap_try ?E (stage_prompt ?E ?m (to_runtime descriptor)))
           = Inl (Error ''Empty response from Gemini'')"
    by (rule try_empty) (simp add: sample_roadmap_reply)
  from run_handled [OF sample_preprocess t, of None] show ?thesis
    by (simp add: sample_roadmap_reply)
qed

text \<open>
  Claim C3 as amended: when the goal was extracted and the raw text of the roadmap stage
  is absent or empty, \<open>generateRoadmap\<close> fails with the error of message
  \<open>Failed to generate or parse roadmap: Empty response from Gemini\<close>; the inner block of
  the handler is entered, as after every failure, and the failure stands.
\<close>

theorem empty_response_fails:
  assumes "result (preprocess env m) = Inr g"
    and "roadmap_reply env m g = Inr None \<or> roadmap_reply env m g = Inr (Some [])"
  shows "result (generateRoadmap env m)
         = Inl (Error ''Failed to generate or parse roadmap: Empty response from Gemini'')
       \<and> fallback (generateRoadmap env m) \<noteq> None"
proof -
  have "snd (generateRoadmap_try env (stage_prompt env m g))
        = Inl (Error ''Empty response from Gemini'')"
    using assms(2) by (rule try_empty)
  from run_handled [OF assms(1) this, of None] show ?thesis by simp
qed

text \<open>Claim C3, witness: the amended statement at an empty text.\<close>

theorem empty_response_fails_witness:
  "result (preprocess (sample_env (Inr (Some goal_text)) (Inr (Some ''''))) ''Plan my studies'')
   = Inr (to_runtime descriptor)
   \<and> roadmap_reply (sample_env (Inr (Some goal_text)) (Inr (Some ''''))) ''Plan my studies''
       (to_runtime descriptor) = Inr (Some '''')
   \<and> result (generateRoadmap (sample_env (Inr (Some goal_text)) (Inr (Some '''')))
        ''Plan my studies'')
     = Inl (Error ''Failed to generate or parse roadmap: Empty response from Gemini'')
   \<and> fallback (generateRoadmap (sample_env (Inr (Some goal_text)) (Inr (Some '''')))
        ''Plan my studies'') \<noteq> None"
proof -
  let ?E = "sample_env (Inr (Some goal_text)) (Inr (Some ''''))"
  have r: "roadmap_reply ?E ''Plan my studies'' (to_runtime descriptor) = Inr (Some '''')"
    by (simp add: sample_roadmap_reply)
  then have "roadmap_reply ?E ''Plan my studies'' (to_runtime descriptor) = Inr None
    \<or> roadmap_reply ?E ''Plan my studies'' (to_runtime descriptor) = Inr (Some [])"
    by simp
  from empty_response_fails [OF sample_preprocess this] r show ?thesis
    by (simp add: sample_preprocess)
qed

subsection \<open>C4: text that cannot be decoded\<close>

text \<open>
  Claim C4 says that text which is no JSON and has no bracketed part fails as an
  unparsable response, and that the failure carries the raw text. The run fails, but with
  a plain \<open>Error\<close> like every other failure, and all it carries is the message of the
  decoder: at \<open>not json at all\<close> neither the message nor the log holds the raw text.
\<close>

theorem unparsable_failure_without_raw_text:
  "regex_match ''not json at all'' = None
   \<and> result (generateRoadmap (sample_env (Inr (Some goal_text)) (Inr (Some ''not json at all'')))
        ''Teach me TypeScript'')
     = Inl (Error ''Failed to generate or parse roadmap: Unexpected token o in JSON at position 1'')
   \<and> \<not> sublist ''not json at all''
        ''Failed to generate or parse roadmap: Unexpected token o in JSON at position 1''
   \<and> console (generateRoadmap (sample_env (Inr (Some goal_text)) (Inr (Some ''not json at all'')))
        ''Teach me TypeScript'')
     = [(''Gemini generation failed:'', Some ''Unexpected token o in JSON at position 1''),
        (''Raw output (if any):'', None)]"
proof -
  let ?E = "sample_env (Inr (Some goal_text)) (Inr (Some ''not json at all''))"
  let ?m = "''Teach me TypeScript''"
  have t: "snd (generateRoadmap_try ?E (stage_prompt ?E ?m (to_runtime descriptor)))
           = Inl (SyntaxError ''Unexpected token o in JSON at position 1'')"
    by (rule try_syntax [where t = "''not json at all''"])
      (simp_all add: sample_roadmap_reply sample_parse)
  have n: "\<not> sublist ''not json at all''
        ''Failed to generate or parse roadmap: Unexpected token o in JSON at position 1''"
    by code_simp
  have r: "regex_match ''not json at all'' = None"
    by (simp add: regex_match_def)
  from run_handled [OF sample_preprocess t, of None] n r show ?thesis
    by simp
qed

text \<open>
  Claim C4 as amended: when the goal was extracted and the raw text of the roadmap stage
  is not empty, is rejected by \<open>JSON.parse\<close> with message \<open>em\<close> and has no bracketed
  part, \<open>generateRoadmap\<close> fails with the \<open>Error\<close> of message
  \<open>Failed to generate or parse roadmap: \<close> followed by \<open>em\<close>.
\<close>

theorem unparsable_response_fails:
  assumes "result (preprocess env m) = Inr g"
    and "roadmap_reply env m g = Inr (Some t)" and "t \<noteq> []"
    and "JSON_parse env t = Inl em" and "regex_match t = None"
  shows "result (generateRoadmap env m)
         = Inl (Error (''Failed to generate or parse roadmap: '' @ em))"
proof -
  have "snd (generateRoadmap_try env (stage_prompt env m g)) = Inl (SyntaxError em)"
    using assms(2-4) by (rule try_syntax)
  from run_handled [OF assms(1) this, of None] show ?thesis by simp
qed

text \<open>Claim C4, witness: the amended statement at \<open>not json at all\<close>.\<close>

theorem unparsable_response_fails_witness:
  "result (preprocess (sample_env (Inr (Some goal_text)) (Inr (Some ''not json at all'')))
     ''Teach me TypeScript'') = Inr (to_runtime descriptor)
   \<and> roadmap_reply (sample_env (Inr (Some goal_text)) (Inr (Some ''not json at all'')))
       ''Teach me TypeScript'' (to_runtime descriptor) = Inr (Some ''not json at all'')
   \<and> ''not json at all'' \<noteq> []
   \<and> JSON_parse (sample_env (Inr (Some goal_text)) (Inr (Some ''not json at all'')))
       ''not json at all'' = Inl ''Unexpected token o in JSON at position 1''
   \<and> regex_match ''not json at all'' = None
   \<and> result (generateRoadmap (sample_env (Inr (Some goal_text)) (Inr (Some ''not json at all'')))
        ''Teach me TypeScript'')
     = Inl (Error (''Failed to generate or parse roadmap: ''
                   @ ''Unexpected token o in JSON at position 1''))"
proof -
  let ?E = "sample_env (Inr (Some goal_text)) (Inr (Some ''not json at all''))"
  have 2: "roadmap_reply ?E ''Teach me TypeScript'' (to_runtime descriptor)
           = Inr (Some ''not json at all'')"
    by (simp add: sample_roadmap_reply)
  have 3: "''not json at all'' \<noteq> []" by simp
  have 4: "JSON_parse ?E ''not json at all'' = Inl ''Unexpected token o in JSON at position 1''"
    by (simp add: sample_parse)
  have 5: "regex_match ''not json at all'' = None"
    by (simp add: regex_match_def)
  from unparsable_response_fails [OF sample_preprocess 2 3 4 5] 2 4 5 show ?thesis
    by (simp add: sample_preprocess)
qed

subsection \<open>C5: the response after a strict decode\<close>

text \<open>
  Claim C5 says that whenever \<open>JSON.parse\<close> accepts the full text, the response is
  built from the properties of the decoded value and the fallback is not applied. Not
  when the text is \<open>null\<close>: \<open>parsed.roadmap\<close> throws a TypeError, which the handler
  catches like any other failure.
\<close>

theorem decoded_null_is_thrown:
  \<open>JSON_parse (sample_env (Inr (Some goal_text)) (Inr (Some ''null''))) ''null'' = Inr JNull
   \<and> result (generateRoadmap (sample_env (Inr (Some goal_text)) (Inr (Some ''null'')))
        ''Teach me TypeScript'')
     = Inl (Error ''Failed to generate or parse roadmap: Cannot read properties of null (reading 'roadmap')'')
   \<and> fallback (generateRoadmap (sample_env (Inr (Some goal_text)) (Inr (Some ''null'')))
        ''Teach me TypeScript'')
     = Some (Inl (ReferenceError ''text is not defined''))\<close>
proof -
  let ?E = "sample_env (Inr (Some goal_text)) (Inr (Some ''null''))"
  let ?m = "''Teach me TypeScript''"
  have t: "snd (generateRoadmap_try ?E (stage_prompt ?E ?m (to_runtime descriptor)))
           = Inl (TypeError (null_read_message ?E ''roadmap''))"
    by (rule try_null [where t = "''null''"]) (simp_all add: sample_roadmap_reply sample_parse)
  from run_handled [OF sample_preprocess t, of None] show ?thesis
    by (simp add: sample_parse sample_null_read)
qed

text \<open>
  Claim C5 as amended: when the goal was extracted and \<open>JSON.parse\<close> accepts the full,
  non-empty text of the roadmap stage with a value other than \<open>null\<close>, the response is
  \<open>{roadmap: parsed.roadmap, shouldTriggerCalendar: parsed.triggerCalendar,
  calendarIntentReason: parsed.calendarIntentReason}\<close> with a \<open>null\<close> or missing reason
  absent, and the handler is not entered (no fallback, nothing logged).
\<close>

theorem strict_decode_returned:
  assumes "result (preprocess env m) = Inr g"
    and "roadmap_reply env m g = Inr (Some t)" and "t \<noteq> []"
    and "JSON_parse env t = Inr parsed" and "parsed \<noteq> JNull"
  shows "result (generateRoadmap env m)
         = Inr \<lparr>roadmap = own_prop parsed ''roadmap'',
                shouldTriggerCalendar = own_prop parsed ''triggerCalendar'',
                calendarIntentReason
                  = nullish_undefined (own_prop parsed ''calendarIntentReason'')\<rparr>
       \<and> fallback (generateRoadmap env m) = None
       \<and> console (generateRoadmap env m) = []"
proof -
  note try_value [OF assms(2-5)]
  from run_strict [OF assms(1) this] show ?thesis by simp
qed

text \<open>Claim C5, witness: the amended statement at \<open>roadmap_text\<close>.\<close>

theorem strict_decode_returned_witness:
  "result (preprocess (sample_env (Inr (Some goal_text)) (Inr (Some roadmap_text)))
     ''Teach me TypeScript'') = Inr (to_runtime descriptor)
   \<and> roadmap_reply (sample_env (Inr (Some goal_text)) (Inr (Some roadmap_text)))
       ''Teach me TypeScript'' (to_runtime descriptor) = Inr (Some roadmap_text)
   \<and> roadmap_text \<noteq> []
   \<and> JSON_parse (sample_env (Inr (Some goal_text)) (Inr (Some roadmap_text))) roadmap_text
     = Inr roadmap_json
   \<and> roadmap_json \<noteq> JNull
   \<and> result (generateRoadmap (sample_env (Inr (Some goal_text)) (Inr (Some roadmap_text)))
        ''Teach me TypeScript'')
     = Inr \<lparr>roadmap = Some stages_json, shouldTriggerCalendar = Some (JBool False),
            calendarIntentReason = None\<rparr>
   \<and> fallback (generateRoadmap (sample_env (Inr (Some goal_text)) (Inr (Some roadmap_text)))
        ''Teach me TypeScript'') = None"
proof -
  let ?E = "sample_env (Inr (Some goal_text)) (Inr (Some roadmap_text))"
  have 2: "roadmap_reply ?E ''Teach me TypeScript'' (to_runtime descriptor)
           = Inr (Some roadmap_text)"
    by (simp add: sample_roadmap_reply)
  have 3: "roadmap_text \<noteq> []" by (simp add: roadmap_text_def)
  have 4: "JSON_parse ?E roadmap_text = Inr roadmap_json" by (simp add: sample_parse)
  have 5: "roadmap_json \<noteq> JNull" by (simp add: roadmap_json_def)
  from strict_decode_returned [OF sample_preprocess 2 3 4 5] 2 3 4 5 show ?thesis
    by (simp add: sample_preprocess roadmap_json_def)
qed

subsection \<open>C6: round trip of a goal descriptor\<close>

text \<open>
  Claim C6: when the raw text of the goal-extraction stage decodes to a form \<open>j\<close> of a
  goal descriptor \<open>d\<close> under the schema (optional fields present, \<open>null\<close> or missing;
  an empty \<open>known\<close> possibly missing), \<open>preprocess\<close> returns \<open>d\<close>: every field with its
  value, the absent ones absent, \<open>known\<close> as a sequence.
\<close>

theorem goal_round_trip:
  assumes "goal_reply env m = Inr (Some text)" and "text \<noteq> []"
    and "JSON_parse env text = Inr j" and "wire_form j d"
  shows "result (preprocess env m) = Inr (to_runtime d)"
proof -
  have g: "own_prop j ''goal'' = Some (JStr (d_goal d))"
    using assms(4) by (simp add: wire_form_def)
  then have nn: "j \<noteq> JNull"
    by auto
  have k: "or_empty_array (own_prop j ''known'') = strings_json (d_known d)"
    using assms(4) by (auto simp: wire_form_def strings_json_def)
  have x: "nullish_undefined (own_prop j ''experienceLevel'')
           = map_option level_json (d_experienceLevel d)"
    using assms(4)
    by (intro optional_on_wire_nullish) (auto simp: wire_form_def elim: level_json.elims)
  have f: "nullish_undefined (own_prop j ''formatPreference'')
           = map_option format_json (d_formatPreference d)"
    using assms(4)
    by (intro optional_on_wire_nullish) (auto simp: wire_form_def elim: format_json.elims)
  have t: "nullish_undefined (own_prop j ''timeframe'') = map_option JStr (d_timeframe d)"
    using assms(4) by (intro optional_on_wire_nullish) (auto simp: wire_form_def)
  have s: "nullish_undefined (own_prop j ''specificFocus'')
           = map_option strings_json (d_specificFocus d)"
    using assms(4)
    by (intro optional_on_wire_nullish) (auto simp: wire_form_def strings_json_def)
  have "snd (preprocess_try env m) = Inr (to_runtime d)"
    using assms(1-3) nn
    by (simp add: preprocess_try_def invoke_def goal_reply_def read_prop_def to_runtime_def k x f t s g)
  then show ?thesis by (simp add: result_preprocess_Inr)
qed

text \<open>Claim C6, witness: the descriptor of \<open>goal_text\<close>, whose experience level is \<open>null\<close>.\<close>

theorem goal_round_trip_witness:
  "goal_reply (sample_env (Inr (Some goal_text)) (Inr (Some roadmap_text)))
     ''Teach me TypeScript'' = Inr (Some goal_text)
   \<and> goal_text \<noteq> []
   \<and> JSON_parse (sample_env (Inr (Some goal_text)) (Inr (Some roadmap_text))) goal_text
       = Inr goal_json
   \<and> wire_form goal_json descriptor
   \<and> result (preprocess (sample_env (Inr (Some goal_text)) (Inr (Some roadmap_text)))
        ''Teach me TypeScript'') = Inr (to_runtime descriptor)"
proof -
  let ?E = "sample_env (Inr (Some goal_text)) (Inr (Some roadmap_text))"
  have 1: "goal_reply ?E ''Teach me TypeScript'' = Inr (Some goal_text)"
    by (simp add: sample_goal_reply)
  have 2: "goal_text \<noteq> []" by (simp add: goal_text_def)
  have 3: "JSON_parse ?E goal_text = Inr goal_json" by (simp add: sample_parse)
  have 4: "wire_form goal_json descriptor"
    by (simp add: wire_form_def goal_json_def descriptor_def strings_json_def)
  from goal_round_trip [OF 1 2 3 4] 1 2 3 4 show ?thesis by simp
qed

subsection \<open>C7: three resources for every node\<close>

text \<open>
  Claim C7 says that every node of a roadmap returned without the fallback has exactly
  three resources. Nothing in the code counts them: the response of \<open>roadmap_text\<close>,
  whose one node has no resource, is returned as it is.
\<close>

theorem resource_count_not_checked:
  "result (generateRoadmap (sample_env (Inr (Some goal_text)) (Inr (Some roadmap_text)))
     ''Teach me TypeScript'')
   = Inr \<lparr>roadmap = Some stages_json, shouldTriggerCalendar = Some (JBool False),
          calendarIntentReason = None\<rparr>
   \<and> fallback (generateRoadmap (sample_env (Inr (Some goal_text)) (Inr (Some roadmap_text)))
        ''Teach me TypeScript'') = None
   \<and> map resource_count (roadmap_nodes (Some stages_json)) = [Some 0]
   \<and> \<not> resource_count_invariant (Some stages_json)"
proof -
  let ?E = "sample_env (Inr (Some goal_text)) (Inr (Some roadmap_text))"
  let ?m = "''Teach me TypeScript''"
  have t: "snd (generateRoadmap_try ?E (stage_prompt ?E ?m (to_runtime descriptor)))
    = Inr \<lparr>roadmap = own_prop roadmap_json ''roadmap'',
           shouldTriggerCalendar = own_prop roadmap_json ''triggerCalendar'',
           calendarIntentReason = nullish_undefined (own_prop roadmap_json ''calendarIntentReason'')\<rparr>"
  proof (rule try_value [where t = roadmap_text])
    show "roadmap_text \<noteq> []" by (simp add: roadmap_text_def)
    show "roadmap_json \<noteq> JNull" by (simp add: roadmap_json_def)
  qed (simp_all add: sample_roadmap_reply sample_parse)
  have c: "map resource_count (roadmap_nodes (Some stages_json)) = [Some 0]"
    by (simp add: roadmap_nodes_def stages_json_def)
  from run_strict [OF sample_preprocess t] c show ?thesis
    by (simp add: roadmap_json_def resource_count_invariant_def roadmap_nodes_def stages_json_def)
qed

text \<open>
  Claim C7 as amended: the roadmap returned without the fallback is the \<open>roadmap\<close> of
  the decoded text, unchanged, so its nodes have exactly three resources each if and only
  if those of the decoded text have; and the prompt of the request asks for exactly
  three.
\<close>

theorem resources_as_decoded:
  assumes "result (preprocess env m) = Inr g"
    and "roadmap_reply env m g = Inr (Some t)" and "t \<noteq> []"
    and "JSON_parse env t = Inr parsed" and "parsed \<noteq> JNull"
  shows \<open>(case result (generateRoadmap env m) of
           Inl e \<Rightarrow> False
         | Inr r \<Rightarrow>
             roadmap r = own_prop parsed ''roadmap''
             \<and> resource_count_invariant (roadmap r)
               = resource_count_invariant (own_prop parsed ''roadmap''))
       \<and> fallback (generateRoadmap env m) = None
       \<and> sublist ''- Exactly 3 high-quality resources per node (video, article, project mix)\<newline>''
           (text_part (sent (last (calls (generateRoadmap env m)))))\<close>
proof -
  note try_value [OF assms(2-5)]
  from run_strict [OF assms(1) this] show ?thesis
    by (simp add: roadmap_request_def stage_prompt_asks_for_three)
qed

text \<open>Claim C7, witness: the amended statement at \<open>roadmap_text\<close>.\<close>

theorem resources_as_decoded_witness:
  \<open>result (preprocess (sample_env (Inr (Some goal_text)) (Inr (Some roadmap_text)))
     ''Plan my studies'') = Inr (to_runtime descriptor)
   \<and> roadmap_reply (sample_env (Inr (Some goal_text)) (Inr (Some roadmap_text)))
       ''Plan my studies'' (to_runtime descriptor) = Inr (Some roadmap_text)
   \<and> roadmap_text \<noteq> []
   \<and> JSON_parse (sample_env (Inr (Some goal_text)) (Inr (Some roadmap_text))) roadmap_text
     = Inr roadmap_json
   \<and> roadmap_json \<noteq> JNull
   \<and> (case result (generateRoadmap (sample_env (Inr (Some goal_text)) (Inr (Some roadmap_text)))
              ''Plan my studies'') of
        Inl e \<Rightarrow> False
      | Inr r \<Rightarrow> roadmap r = Some stages_json \<and> \<not> resource_count_invariant (roadmap r))\<close>
proof -
  let ?E = "sample_env (Inr (Some goal_text)) (Inr (Some roadmap_text))"
  have 2: "roadmap_reply ?E ''Plan my studies'' (to_runtime descriptor)
           = Inr (Some roadmap_text)"
    by (simp add: sample_roadmap_reply)
  have 3: "roadmap_text \<noteq> []" by (simp add: roadmap_text_def)
  have 4: "JSON_parse ?E roadmap_text = Inr roadmap_json" by (simp add: sample_parse)
  have 5: "roadmap_json \<noteq> JNull" by (simp add: roadmap_json_def)
  have 6: "\<not> resource_count_invariant (own_prop roadmap_json ''roadmap'')"
    by (simp add: roadmap_json_def resource_count_invariant_def roadmap_nodes_def stages_json_def)
  have 7: "own_prop roadmap_json ''roadmap'' = Some stages_json"
    by (simp add: roadmap_json_def)
  from resources_as_decoded [OF sample_preprocess 2 3 4 5] 2 3 4 5 6 7 show ?thesis
    by (auto simp add: sample_preprocess split: sum.splits)
qed

subsection \<open>C8: the two stages in sequence\<close>

text \<open>
  Claim C8: \<open>generateRoadmap\<close> is the composition of the two stages. What it returns is
  what \<open>pipeline\<close> returns: the goal stage run on the message and, if it succeeds, the
  roadmap stage run on the extracted goal and the message, its result returned and its
  failure a failure of the run. The first call of a run is the goal-extraction request
  around the message; if that stage fails the run fails with its error and calls nothing
  else; otherwise there is one more call, with the roadmap prompt that holds the message
  itself and \<open>buildRoadmapPrompt\<close> of the extracted goal. There is no third call, and
  no run goes without the first.
\<close>

theorem pipeline_is_sequential:
  "returned (result (generateRoadmap env m)) = pipeline env m
   \<and> calls (generateRoadmap env m)
     = \<lparr>on_model = goal_model,
        sent = \<lparr>role = ''user'', text_part = goal_prompt_head @ m @ goal_prompt_tail,
                responseSchema = goal_schema\<rparr>\<rparr> #
       (case result (preprocess env m) of
          Inl e \<Rightarrow> []
        | Inr g \<Rightarrow>
            [\<lparr>on_model = chat_model,
              sent = \<lparr>role = ''user'',
                      text_part = roadmap_prompt_head @ m @ roadmap_prompt_mid
                        @ buildRoadmapPrompt env (goal g) (known g) (experienceLevel g)
                        @ roadmap_prompt_tail,
                      responseSchema = roadmap_schema\<rparr>\<rparr>])
   \<and> (case result (preprocess env m) of
        Inl e \<Rightarrow> goal_stage env m = None \<and> result (generateRoadmap env m) = Inl e
      | Inr g \<Rightarrow>
          goal_stage env m = Some g
          \<and> returned (result (generateRoadmap env m)) = roadmap_stage env g m)"
proof (cases "result (preprocess env m)")
  case (Inl e)
  with returned_preprocess [of env m] have "goal_stage env m = None"
    by simp
  with Inl show ?thesis
    by (simp add: calls_generateRoadmap goal_request_def goal_prompt_eq run_goal_failed
        pipeline_def)
next
  case (Inr g)
  with returned_preprocess [of env m] have "goal_stage env m = Some g"
    by simp
  with Inr returned_generateRoadmap_stage [OF Inr] show ?thesis
    by (simp add: calls_generateRoadmap goal_request_def goal_prompt_eq roadmap_request_def
        stage_prompt_def fullPrompt_eq pipeline_def)
qed

text \<open>
  Claim C8, witness: a run in the sample environment returns what the roadmap stage
  decodes from the second reply, after the two calls.
\<close>

theorem pipeline_is_sequential_witness:
  "returned (result (generateRoadmap (sample_env (Inr (Some goal_text)) (Inr (Some roadmap_text)))
      ''Teach me TypeScript''))
   = Some \<lparr>roadmap = Some stages_json, shouldTriggerCalendar = Some (JBool False),
           calendarIntentReason = None\<rparr>
   \<and> pipeline (sample_env (Inr (Some goal_text)) (Inr (Some roadmap_text)))
       ''Teach me TypeScript''
     = Some \<lparr>roadmap = Some stages_json, shouldTriggerCalendar = Some (JBool False),
             calendarIntentReason = None\<rparr>
   \<and> calls (generateRoadmap (sample_env (Inr (Some goal_text)) (Inr (Some roadmap_text)))
      ''Teach me TypeScript'')
   = [\<lparr>on_model = goal_model,
       sent = \<lparr>role = ''user'',
               text_part = goal_prompt_head @ ''Teach me TypeScript'' @ goal_prompt_tail,
               responseSchema = goal_schema\<rparr>\<rparr>,
      \<lparr>on_model = chat_model,
       sent = \<lparr>role = ''user'',
               text_part = roadmap_prompt_head @ ''Teach me TypeScript'' @ roadmap_prompt_mid
                 @ ''Goal: Learn TypeScript'' @ roadmap_prompt_tail,
               responseSchema = roadmap_schema\<rparr>\<rparr>]"
proof -
  let ?E = "sample_env (Inr (Some goal_text)) (Inr (Some roadmap_text))"
  let ?m = "''Teach me TypeScript''"
  have t: "snd (generateRoadmap_try ?E (stage_prompt ?E ?m (to_runtime descriptor)))
    = Inr \<lparr>roadmap = own_prop roadmap_json ''roadmap'',
           shouldTriggerCalendar = own_prop roadmap_json ''triggerCalendar'',
           calendarIntentReason = nullish_undefined (own_prop roadmap_json ''calendarIntentReason'')\<rparr>"
  proof (rule try_value [where t = roadmap_text])
    show "roadmap_text \<noteq> []" by (simp add: roadmap_text_def)
    show "roadmap_json \<noteq> JNull" by (simp add: roadmap_json_def)
  qed (simp_all add: sample_roadmap_reply sample_parse)
  from run_strict [OF sample_preprocess t]
  have r: "result (generateRoadmap ?E ?m)
           = Inr \<lparr>roadmap = Some stages_json, shouldTriggerCalendar = Some (JBool False),
                  calendarIntentReason = None\<rparr>"
    by (simp add: roadmap_json_def)
  from pipeline_is_sequential [of ?E ?m] r show ?thesis
    by (simp add: sample_preprocess to_runtime_def descriptor_def sample_build)
qed

subsection \<open>C9: failures reach the caller wrapped once\<close>

text \<open>
  Claim C9 says that every failure of either stage reaches the caller of
  \<open>generateRoadmap\<close> as one wrapped failure that carries the message of the original,
  and that a failure of the goal stage ends the run. No failure is suppressed and a
  failure of the goal stage ends the run (\<open>goal_failure_is_terminal\<close>,
  \<open>roadmap_failure_propagates\<close>), and the failure is wrapped when the log line returns
  (\<open>goal_failure_wrapped\<close>, \<open>roadmap_failure_wrapped\<close>). But the log line of 268 calls
  \<open>err.response.text()\<close> outside any \<open>try\<close>: at the error \<open>blocked\<close> thrown in the goal
  stage, what reaches the caller is what that call throws, not wrapped.
\<close>

theorem goal_failure_not_wrapped:
  "generateRoadmap (sample_env (Inl blocked) (Inr (Some roadmap_text))) ''Teach me TypeScript''
   = \<lparr>calls = [\<lparr>on_model = goal_model, sent = goal_request ''Teach me TypeScript''\<rparr>],
      console = [(''Gemini preprocessing failed:'', Some ''Candidate was blocked due to SAFETY'')],
      result =
        Inl (JsError ''GoogleGenerativeAIResponseError'' ''Candidate was blocked due to SAFETY''
               NoResponse),
      fallback = None\<rparr>"
proof -
  let ?E = "sample_env (Inl blocked) (Inr (Some roadmap_text))"
  let ?m = "''Teach me TypeScript''"
  have t: "snd (preprocess_try ?E ?m) = Inl blocked"
    by (rule preprocess_try_upstream) (simp add: sample_goal_reply)
  have p: "preprocess ?E ?m
    = \<lparr>calls = [\<lparr>on_model = goal_model, sent = goal_request ''Teach me TypeScript''\<rparr>],
       console = [(''Gemini preprocessing failed:'', Some (message blocked))],
       result = Inl (JsError ''GoogleGenerativeAIResponseError''
                  ''Candidate was blocked due to SAFETY'' NoResponse)\<rparr>"
    by (rule preprocess_log_throws [OF t sample_raw_blocked])
  have "result (preprocess ?E ?m) = Inl (JsError ''GoogleGenerativeAIResponseError''
                  ''Candidate was blocked due to SAFETY'' NoResponse)"
    by (simp add: p)
  from run_goal_failed [OF this] show ?thesis
    by (simp add: p message_blocked)
qed

subsection \<open>C10: the temperatures\<close>



end
